theory Spec2Isabelle
  imports Main
begin

section \<open>Machine integers and time\<close>

text \<open>
  Go's \<open>int\<close> (on a 64-bit platform, as assumed throughout) and \<open>time.Duration\<close> are
  signed 64-bit integers.
  They are modelled as \<open>int\<close> with the two's complement wrap-around written out:
  every arithmetic result of the source passes through \<open>wrap64\<close>.
  A \<open>time.Duration\<close> counts nanoseconds.
\<close>

type_synonym Duration = int

definition minInt64 :: int where
  "minInt64 = - (2 ^ 63)"

definition maxInt64 :: int where
  "maxInt64 = 2 ^ 63 - 1"

definition wrap64 :: "int \<Rightarrow> int" where
  "wrap64 x = (x + 2 ^ 63) mod 2 ^ 64 - 2 ^ 63"

definition Second :: Duration where
  "Second = 1000000000"

text \<open>
  A \<open>time.Time\<close> is modelled as the number of nanoseconds since the Unix epoch
  (unbounded: the range of \<open>time.Time\<close> is far larger than that of a \<open>Duration\<close>).
  The zero \<open>Time\<close> is January 1, year 1, 00:00:00 UTC.
  \<open>Time.Unix()\<close> is the number of whole seconds since the epoch, rounded down;
  \<open>time.Unix(sec, nsec)\<close> builds the instant back.
  \<open>time.Since(t)\<close> is \<open>time.Now().Sub(t)\<close>, and \<open>Sub\<close> saturates at the
  smallest and largest \<open>Duration\<close>; the clock reading is a parameter.
\<close>

type_synonym Time = int

definition zeroTime :: Time where
  "zeroTime = - 62135596800 * Second"

definition IsZero :: "Time \<Rightarrow> bool" where
  "IsZero t = (t = zeroTime)"

definition Unix :: "Time \<Rightarrow> int" where
  "Unix t = t div Second"

definition time_Unix :: "int \<Rightarrow> int \<Rightarrow> Time" where
  "time_Unix sec nsec = sec * Second + nsec"

definition Sub :: "Time \<Rightarrow> Time \<Rightarrow> Duration" where
  "Sub t u = max minInt64 (min maxInt64 (t - u))"

definition Since :: "Time \<Rightarrow> Time \<Rightarrow> Duration" where
  "Since now t = Sub now t"

section \<open>\<open>strconv.Atoi\<close>\<close>

text \<open>
  The standard library's \<open>strconv.Atoi\<close> accepts an optional sign \<open>+\<close> or \<open>-\<close> followed
  by one or more decimal digits and nothing else, with a value in the range of \<open>int\<close>
  (64 bits here). For every other string it returns an error (of syntax or of range);
  the caller only tests \<open>err != nil\<close>, so the error is \<open>None\<close>.
\<close>

definition is_digit :: "char \<Rightarrow> bool" where
  "is_digit c = (48 \<le> (of_char c :: nat) \<and> (of_char c :: nat) \<le> 57)"

definition digit_of :: "char \<Rightarrow> int" where
  "digit_of c = int (of_char c) - 48"

fun digits_value :: "string \<Rightarrow> int \<Rightarrow> int option" where
  "digits_value [] n = Some n"
| "digits_value (ch # s) n =
     (if is_digit ch then digits_value s (n * 10 + digit_of ch) else None)"

definition Atoi :: "string \<Rightarrow> int option" where
  "Atoi s0 =
     (let neg = (s0 \<noteq> [] \<and> hd s0 = CHR ''-'');
          s = (if s0 \<noteq> [] \<and> (hd s0 = CHR ''-'' \<or> hd s0 = CHR ''+'') then tl s0 else s0)
      in if s = [] then None
         else case digits_value s 0 of
                None \<Rightarrow> None
              | Some un \<Rightarrow>
                  (let n = (if neg then - un else un)
                   in if n < minInt64 \<or> maxInt64 < n then None else Some n))"

section \<open>The configured duration\<close>

text \<open>
  \<open>getAuctionDuration\<close> reads the environment variable \<open>AUCTION_DURATION_SECONDS\<close>;
  its value \<open>v\<close> (the empty string when the variable is unset) is the parameter here.
  \<open>time.Duration(secs) * time.Second\<close> is a 64-bit multiplication.
\<close>

definition getAuctionDuration :: "string \<Rightarrow> Duration" where
  "getAuctionDuration v =
     (if v = [] then wrap64 (600 * Second)
      else case Atoi v of
             None \<Rightarrow> wrap64 (600 * Second)
           | Some secs \<Rightarrow>
               if secs \<le> 0 then wrap64 (600 * Second)
               else wrap64 (secs * Second))"

section \<open>Spec-side reading of the configuration value\<close>

text \<open>
  What the specification calls an integer string, in its own words: an optional sign
  followed by one or more decimal digits. Its value is given by positional notation,
  independently of how \<open>Atoi\<close> accumulates it.
\<close>

definition digit_string :: "string \<Rightarrow> bool" where
  "digit_string ds = (ds \<noteq> [] \<and> list_all is_digit ds)"

definition decimal_value :: "string \<Rightarrow> int" where
  "decimal_value ds = (\<Sum>i<length ds. digit_of (ds ! i) * 10 ^ (length ds - Suc i))"

definition integer_string :: "string \<Rightarrow> bool" where
  "integer_string v =
     (case v of
        [] \<Rightarrow> False
      | c # r \<Rightarrow> if c = CHR ''-'' \<or> c = CHR ''+'' then digit_string r else digit_string v)"

definition integer_value :: "string \<Rightarrow> int" where
  "integer_value v =
     (case v of
        [] \<Rightarrow> 0
      | c # r \<Rightarrow> if c = CHR ''-'' then - decimal_value r
                else if c = CHR ''+'' then decimal_value r
                else decimal_value v)"

section \<open>The persistence store\<close>

text \<open>
  \<open>auction_entity.Auction\<close> as \<open>CreateAuction\<close> uses it. \<open>ProductCondition\<close> and
  \<open>AuctionStatus\<close> are integer types; the status constants are \<open>Active = 0\<close> and
  \<open>Finished = 1\<close> (\<open>iota\<close>).
\<close>

definition Active :: int where
  "Active = 0"

definition Finished :: int where
  "Finished = 1"

record Auction =
  Id :: string
  ProductName :: string
  Category :: string
  Description :: string
  Condition :: int
  Status :: int
  Timestamp :: Time

text \<open>
  \<open>AuctionEntityMongo\<close>, the persisted document; the fields carry their \<open>bson\<close> names
  (\<open>bson_id\<close> is \<open>_id\<close>). \<open>timestamp\<close> is an \<open>int64\<close> of whole Unix seconds.
\<close>

record AuctionEntityMongo =
  bson_id :: string
  product_name :: string
  category :: string
  description :: string
  condition :: int
  status :: int
  timestamp :: int

text \<open>
  The collection \<open>auctions\<close> maps \<open>_id\<close> to its document (MongoDB keeps \<open>_id\<close> unique).
  What becomes of a call of the driver is the environment's choice. The insert (and
  the calls of the bid gate below) either reaches the store or does not (connection
  error, context already done).
\<close>

type_synonym Collection = "string \<rightharpoonup> AuctionEntityMongo"

datatype call_reply = Reached | Unreached

datatype mongo_error = ErrNoDocuments | DuplicateKey | DriverError

datatype Context = Background | WithCancel Context | WithTimeout Context Duration

definition InsertOne ::
  "call_reply \<Rightarrow> Collection \<Rightarrow> AuctionEntityMongo \<Rightarrow> mongo_error + Collection" where
  "InsertOne reply coll doc =
     (if reply = Unreached then Inl DriverError
      else if coll (bson_id doc) \<noteq> None then Inl DuplicateKey
      else Inr (coll(bson_id doc \<mapsto> doc)))"

text \<open>
  \<open>FindOneAndUpdate\<close> with the filter \<open>{_id: fid, status: fstatus}\<close>, the update
  \<open>{$set: {status: new}}\<close> and \<open>ReturnDocument(After)\<close>, followed by \<open>Decode\<close>. The
  update is one atomic step of the store. The call has three outcomes:
  \<^item> \<open>Served\<close>: the store takes the step and its answer reaches the caller, the updated
    document, or \<open>ErrNoDocuments\<close> when no document matches the filter;
  \<^item> \<open>Failed\<close>: the store never takes the step (connection error, deadline reached
    before the store acts), and the caller gets an error;
  \<^item> \<open>Lost\<close>: the store takes the step, and the caller still gets an error (the
    deadline passes or the connection drops before the answer arrives, or the answer
    cannot be decoded).
  The caller cannot tell \<open>Failed\<close> from \<open>Lost\<close>: both are an error other than
  \<open>ErrNoDocuments\<close>.
\<close>

datatype driver_reply = Served | Failed | Lost

definition FindOneAndUpdate ::
  "driver_reply \<Rightarrow> Collection \<Rightarrow> string \<Rightarrow> int \<Rightarrow> int \<Rightarrow>
     (mongo_error + AuctionEntityMongo) \<times> Collection" where
  "FindOneAndUpdate reply coll fid fstatus new =
     (if reply = Failed then (Inl DriverError, coll)
      else
        (let (res, coll') =
               (case coll fid of
                  None \<Rightarrow> (Inl ErrNoDocuments, coll)
                | Some doc \<Rightarrow>
                    if status doc = fstatus
                    then (Inr (doc\<lparr>status := new\<rparr>), coll(fid \<mapsto> doc\<lparr>status := new\<rparr>))
                    else (Inl ErrNoDocuments, coll))
         in if reply = Lost then (Inl DriverError, coll') else (res, coll')))"

section \<open>\<open>CreateAuction\<close>\<close>

datatype InternalError = InternalServerError string

datatype log_entry = Info string | Error string

text \<open>
  What \<open>CreateAuction\<close> reads from outside: the clock at the \<open>IsZero\<close> branch, the
  driver's reply to \<open>InsertOne\<close>, the environment variable, and the clock inside
  \<open>time.Since\<close>.
\<close>

record environment =
  clock_default :: Time
  insert_reply :: call_reply
  AUCTION_DURATION_SECONDS :: string
  clock_since :: Time

text \<open>The arguments of the \<open>go func(auctionID, wait)\<close> statement.\<close>

record goroutine =
  auctionID :: string
  wait :: Duration

text \<open>The wait that the \<open>if\<close> statement after \<open>time.Since\<close> computes.\<close>

definition remaining_of :: "Duration \<Rightarrow> Duration \<Rightarrow> Duration" where
  "remaining_of duration elapsed =
     (if elapsed \<ge> duration then 0 else wrap64 (duration - elapsed))"

text \<open>
  The result of a call: the returned error (\<open>None\<close> is \<open>nil\<close>), the collection, the
  entity behind the pointer (its \<open>Timestamp\<close> may have been set), the goroutine started
  by the \<open>go\<close> statement if that statement was reached, and what was logged.
\<close>

record create_result =
  returned :: "InternalError option"
  collection :: Collection
  entity :: Auction
  spawned :: "goroutine option"
  logged :: "log_entry list"

text \<open>The composite literal that builds \<open>auctionEntityMongo\<close>.\<close>

definition toMongo :: "Auction \<Rightarrow> AuctionEntityMongo" where
  "toMongo a =
     \<lparr>bson_id = Id a, product_name = ProductName a, category = Category a,
      description = Description a, condition = Condition a, status = Status a,
      timestamp = Unix (Timestamp a)\<rparr>"

definition CreateAuction ::
  "environment \<Rightarrow> Collection \<Rightarrow> Context \<Rightarrow> Auction \<Rightarrow> create_result" where
  "CreateAuction env coll ctx auctionEntity0 =
     (let auctionEntity =
            (if IsZero (Timestamp auctionEntity0)
             then auctionEntity0\<lparr>Timestamp := clock_default env\<rparr>
             else auctionEntity0);
          auctionEntityMongo = toMongo auctionEntity
      in case InsertOne (insert_reply env) coll auctionEntityMongo of
           Inl err \<Rightarrow>
             \<lparr>returned = Some (InternalServerError ''Error trying to insert auction''),
              collection = coll, entity = auctionEntity, spawned = None,
              logged = [Error ''Error trying to insert auction'']\<rparr>
         | Inr coll' \<Rightarrow>
             (let duration = getAuctionDuration (AUCTION_DURATION_SECONDS env);
                  createdAt = time_Unix (timestamp auctionEntityMongo) 0;
                  elapsed = Since (clock_since env) createdAt;
                  remaining = remaining_of duration elapsed
              in \<lparr>returned = None, collection = coll', entity = auctionEntity,
                  spawned = Some \<lparr>auctionID = bson_id auctionEntityMongo, wait = remaining\<rparr>,
                  logged = []\<rparr>))"

section \<open>The closing goroutine\<close>

text \<open>
  The body of the goroutine, as the sequence of what it does: arming a timer and
  waiting for it (only when \<open>wait > 0\<close>), then the close attempt: one call of
  \<open>FindOneAndUpdate\<close> under the context \<open>WithTimeout(Background(), 10 * Second)\<close>
  and one log line.
\<close>

datatype event =
    NewTimer Duration
  | StoreUpdate Context string int int
  | Log log_entry

definition close_attempt ::
  "string \<Rightarrow> driver_reply \<Rightarrow> Collection \<Rightarrow> event list \<times> Collection" where
  "close_attempt auction_id reply coll =
     (let updateCtx = WithTimeout Background (wrap64 (10 * Second));
          (res, coll') = FindOneAndUpdate reply coll auction_id Active Finished;
          call = StoreUpdate updateCtx auction_id Active Finished
      in case res of
           Inl err \<Rightarrow>
             if err = ErrNoDocuments
             then ([call, Log (Info ''Auction already closed or not found, skipping auto-close'')],
                   coll')
             else ([call, Log (Error ''Error auto-closing auction'')], coll')
         | Inr updated \<Rightarrow> ([call, Log (Info ''Auction auto-closed'')], coll'))"

definition close_goroutine ::
  "goroutine \<Rightarrow> driver_reply \<Rightarrow> Collection \<Rightarrow> event list \<times> Collection" where
  "close_goroutine g reply coll =
     (let timer = (if wait g > 0 then [NewTimer (wait g)] else []);
          (evs, coll') = close_attempt (auctionID g) reply coll
      in (timer @ evs, coll'))"

text \<open>The calls of the store that a sequence of events contains.\<close>

fun store_calls :: "event list \<Rightarrow> (Context \<times> string \<times> int \<times> int) list" where
  "store_calls [] = []"
| "store_calls (StoreUpdate c i s n # evs) = (c, i, s, n) # store_calls evs"
| "store_calls (ev # evs) = store_calls evs"

text \<open>
  When the update is issued and when the store applies it. The goroutine starts some
  time after the clock reading of \<open>time.Since\<close>, a timer fires no earlier than the
  duration it was armed with, and the store applies the update some time after the
  call; the three delays are natural numbers of nanoseconds chosen by the scheduler
  and the store.
\<close>

record latency =
  start_delay :: nat
  timer_delay :: nat
  store_delay :: nat

definition update_instant :: "Time \<Rightarrow> goroutine \<Rightarrow> latency \<Rightarrow> Time" where
  "update_instant t0 g lat =
     t0 + int (start_delay lat)
        + (if wait g > 0 then wait g + int (timer_delay lat) else 0)"

definition commit_instant :: "Time \<Rightarrow> goroutine \<Rightarrow> latency \<Rightarrow> Time" where
  "commit_instant t0 g lat = update_instant t0 g lat + int (store_delay lat)"

text \<open>
  Several close attempts for one identifier. Each goroutine touches the shared store
  in exactly one atomic step, so a concurrent run is an order in which the store
  serves these steps: the schedule lists the attempts (thread number and the driver's
  reply) in that order. What an attempt observed is read off its log line.
\<close>

datatype observed = Transition | NoMatch | Abandoned

definition observed_of :: "event list \<Rightarrow> observed" where
  "observed_of evs =
     (if Log (Info ''Auction auto-closed'') \<in> set evs then Transition
      else if Log (Info ''Auction already closed or not found, skipping auto-close'') \<in> set evs
      then NoMatch else Abandoned)"


section \<open>The bid acceptance gate\<close>

datatype domain_error = StoreUnavailable | NotFound | AuctionClosed

record Bid =
  bid_Id :: string
  bid_UserId :: string
  bid_AuctionId :: string
  bid_Amount :: int
  bid_Timestamp :: Time

text \<open>
  Modelled from the spec: the bid-placement path (the Bid Acceptance Gate of section
  4.4 and the error taxonomy of section 7), whose code is not part of the sources
  modelled here (of the bid use cases only the two finders are). The gate reads the
  auction's current status from the store; a failed read is \<open>StoreUnavailable\<close>, an
  unknown identifier is \<open>NotFound\<close>, a status other than Open is \<open>AuctionClosed\<close>, and
  only an Open auction has the bid persisted (which may itself fail).
\<close>

definition place_bid ::
  "call_reply \<Rightarrow> call_reply \<Rightarrow> Collection \<Rightarrow> Bid list \<Rightarrow> Bid \<Rightarrow>
     (domain_error + unit) \<times> Bid list" where
  "place_bid read_reply write_reply auctions bids bid =
     (if read_reply = Unreached then (Inl StoreUnavailable, bids)
      else case auctions (bid_AuctionId bid) of
             None \<Rightarrow> (Inl NotFound, bids)
           | Some a \<Rightarrow>
               if status a \<noteq> Active then (Inl AuctionClosed, bids)
               else if write_reply = Unreached then (Inl StoreUnavailable, bids)
               else (Inr (), bids @ [bid]))"

section \<open>The program as a transition system\<close>

text \<open>
  The state of a running process: the store, and the closing goroutines that have been
  started and have not yet made their update. The program has two kinds of steps:
  a call of \<open>CreateAuction\<close>, and a pending goroutine making its update. Nothing else in
  the sources starts a goroutine or writes the \<open>status\<close> of a document.
\<close>

record system =
  store :: Collection
  pending :: "goroutine list"

datatype action = Create environment Context Auction | Fire nat driver_reply

fun step :: "action \<Rightarrow> system \<Rightarrow> system" where
  "step (Create env ctx a) s =
     (let r = CreateAuction env (store s) ctx a
      in \<lparr>store = collection r,
          pending = pending s @ (case spawned r of None \<Rightarrow> [] | Some g \<Rightarrow> [g])\<rparr>)"
| "step (Fire i reply) s =
     (if i < length (pending s)
      then \<lparr>store = snd (close_goroutine (pending s ! i) reply (store s)),
            pending = take i (pending s) @ drop (Suc i) (pending s)\<rparr>
      else s)"

definition run :: "action list \<Rightarrow> system \<Rightarrow> system" where
  "run acts s = fold step acts s"

definition closed_in :: "Collection \<Rightarrow> string \<Rightarrow> bool" where
  "closed_in coll aid = (map_option status (coll aid) = Some Finished)"

definition armed_for :: "system \<Rightarrow> string \<Rightarrow> bool" where
  "armed_for s aid = (aid \<in> auctionID ` set (pending s))"

section \<open>Example inputs\<close>

text \<open>
  An auction as the tests create it (no timestamp yet), created on 2026-10-30 at
  12:00:00.5 UTC with \<open>AUCTION_DURATION_SECONDS=10\<close>; the insert takes 3 ms, the
  goroutine starts 0.1 ms later, its timer fires 1 ms late and the store applies the
  update 2 ms after the call.
\<close>

definition example_auction :: Auction where
  "example_auction =
     \<lparr>Id = ''a1'', ProductName = ''Test Product'', Category = ''Electronics'',
      Description = ''This is a test product description for testing'',
      Condition = 1, Status = Active, Timestamp = zeroTime\<rparr>"

definition example_env :: environment where
  "example_env =
     \<lparr>clock_default = 1793361600500000000, insert_reply = Reached,
      AUCTION_DURATION_SECONDS = ''10'', clock_since = 1793361600503000000\<rparr>"

definition example_latency :: latency where
  "example_latency = \<lparr>start_delay = 100000, timer_delay = 1000000, store_delay = 2000000\<rparr>"

definition example_goroutine :: goroutine where
  "example_goroutine = \<lparr>auctionID = ''a1'', wait = 9497000000\<rparr>"

definition open_doc :: AuctionEntityMongo where
  "open_doc =
     \<lparr>bson_id = ''a1'', product_name = ''Test Product'', category = ''Electronics'',
      description = ''This is a test product description for testing'',
      condition = 1, status = Active, timestamp = 1793361600\<rparr>"

definition open_store :: Collection where
  "open_store = [''a1'' \<mapsto> open_doc]"

definition closed_store :: Collection where
  "closed_store = [''a1'' \<mapsto> open_doc\<lparr>status := Finished\<rparr>]"

text \<open>
  The same auction with a creation timestamp of 2400-01-01 00:00:00 UTC, created
  with the variable unset.
\<close>

definition future_auction :: Auction where
  "future_auction = example_auction\<lparr>Timestamp := time_Unix 13569465600 0\<rparr>"

definition default_env :: environment where
  "default_env = example_env\<lparr>AUCTION_DURATION_SECONDS := []\<rparr>"

definition example_bid :: Bid where
  "example_bid =
     \<lparr>bid_Id = ''b1'', bid_UserId = ''user-123'', bid_AuctionId = ''a1'',
      bid_Amount = 1500, bid_Timestamp = 1793361700000000000\<rparr>"

section \<open>Arithmetic of the model\<close>

lemma wrap64_id: "minInt64 \<le> x \<Longrightarrow> x \<le> maxInt64 \<Longrightarrow> wrap64 x = x"
  by (simp add: wrap64_def minInt64_def maxInt64_def)

lemma default_duration: "wrap64 (600 * Second) = 600 * Second"
  by (simp add: wrap64_def Second_def)

lemma ten_seconds: "wrap64 (10 * Second) = 10 * Second"
  by (simp add: wrap64_def Second_def)

lemma wrap64_range: "minInt64 \<le> wrap64 x \<and> wrap64 x \<le> maxInt64"
proof -
  have "0 \<le> (x + 2 ^ 63) mod 2 ^ 64" "(x + 2 ^ 63) mod 2 ^ 64 < (2 ^ 64 :: int)"
    by simp_all
  then show ?thesis by (simp add: wrap64_def minInt64_def maxInt64_def)
qed

section \<open>\<open>Atoi\<close> against positional notation\<close>

lemma decimal_value_Nil: "decimal_value [] = 0"
  by (simp add: decimal_value_def)

lemma decimal_value_Cons:
  "decimal_value (c # cs) = digit_of c * 10 ^ length cs + decimal_value cs"
  by (simp add: decimal_value_def sum.lessThan_Suc_shift del: sum.lessThan_Suc)

lemma digits_value_decimal:
  "list_all is_digit ds \<Longrightarrow> digits_value ds a = Some (a * 10 ^ length ds + decimal_value ds)"
  by (induction ds arbitrary: a) (simp_all add: decimal_value_Nil decimal_value_Cons algebra_simps)

lemma digits_value_None: "\<not> list_all is_digit ds \<Longrightarrow> digits_value ds a = None"
  by (induction ds arbitrary: a) simp_all

lemma sign_not_digit: "\<not> is_digit CHR ''-''" "\<not> is_digit CHR ''+''"
  by (simp_all add: is_digit_def)

lemma Atoi_not_integer_string: "\<not> integer_string v \<Longrightarrow> Atoi v = None"
  by (cases v)
     (auto simp: integer_string_def Atoi_def digit_string_def digits_value_None Let_def
           split: if_splits)

lemma Atoi_integer_string:
  "integer_string v \<Longrightarrow>
     Atoi v = (if integer_value v < minInt64 \<or> maxInt64 < integer_value v
               then None else Some (integer_value v))"
  by (cases v)
     (auto simp: integer_string_def integer_value_def Atoi_def digit_string_def
                 digits_value_decimal Let_def sign_not_digit
           simp del: digits_value.simps split: if_splits)

lemmas string_eval =
  integer_string_def integer_value_def digit_string_def is_digit_def digit_of_def
  decimal_value_Nil decimal_value_Cons

lemmas duration_eval =
  getAuctionDuration_def Atoi_def is_digit_def digit_of_def wrap64_def Second_def
  minInt64_def maxInt64_def

lemma getAuctionDuration_range:
  "minInt64 \<le> getAuctionDuration v \<and> getAuctionDuration v \<le> maxInt64"
  by (simp add: getAuctionDuration_def wrap64_range split: option.split)

section \<open>The scheduler's arithmetic\<close>

lemma remaining_of_max:
  "duration - elapsed \<le> maxInt64 \<Longrightarrow> remaining_of duration elapsed = max 0 (duration - elapsed)"
  by (simp add: remaining_of_def wrap64_id minInt64_def max_def)

lemma Since_cases:
  "Since now t = (if now - t < minInt64 then minInt64
                  else if maxInt64 < now - t then maxInt64 else now - t)"
  by (simp add: Since_def Sub_def minInt64_def maxInt64_def)

lemma truncation: "time_Unix (Unix T) 0 = T - T mod Second"
  by (simp add: time_Unix_def Unix_def minus_mod_eq_div_mult)

lemma sub_second: "0 \<le> T mod Second \<and> T mod Second < Second"
  by (simp add: Second_def)

lemma scheduled_wait:
  assumes "minInt64 \<le> now - createdAt" and "D - (now - createdAt) \<le> maxInt64"
      and "D \<le> maxInt64"
  shows "remaining_of D (Since now createdAt) = max 0 (D - (now - createdAt))"
proof (cases "maxInt64 < now - createdAt")
  case True
  then have "Since now createdAt = maxInt64"
    using assms(1) by (simp add: Since_cases)
  with True assms(3) show ?thesis by (simp add: remaining_of_def)
next
  case False
  then have "Since now createdAt = now - createdAt"
    using assms(1) by (simp add: Since_cases)
  with assms(2) show ?thesis by (simp add: remaining_of_max)
qed

lemma update_instant_lower: "t0 + max 0 (wait g) \<le> update_instant t0 g lat"
  by (simp add: update_instant_def)

lemma commit_instant_lower: "update_instant t0 g lat \<le> commit_instant t0 g lat"
  by (simp add: commit_instant_def)

section \<open>What \<open>CreateAuction\<close> leaves behind\<close>

lemma CreateAuction_spawned:
  assumes "spawned (CreateAuction env coll ctx a) = Some g"
  shows "auctionID g = Id a \<and>
         wait g = remaining_of (getAuctionDuration (AUCTION_DURATION_SECONDS env))
                    (Since (clock_since env)
                       (time_Unix (Unix (Timestamp (entity (CreateAuction env coll ctx a)))) 0)) \<and>
         returned (CreateAuction env coll ctx a) = None \<and>
         collection (CreateAuction env coll ctx a)
           = coll(Id a \<mapsto> toMongo (entity (CreateAuction env coll ctx a))) \<and>
         Status (entity (CreateAuction env coll ctx a)) = Status a \<and>
         coll (Id a) = None"
  using assms
  by (auto simp: CreateAuction_def InsertOne_def toMongo_def Let_def split: if_splits)

lemma CreateAuction_not_spawned:
  assumes "spawned (CreateAuction env coll ctx a) = None"
  shows "collection (CreateAuction env coll ctx a) = coll"
  using assms
  by (auto simp: CreateAuction_def InsertOne_def toMongo_def Let_def split: if_splits)

lemmas example_eval =
  CreateAuction_def InsertOne_def toMongo_def Let_def IsZero_def zeroTime_def Unix_def
  time_Unix_def Since_def Sub_def remaining_of_def example_auction_def example_env_def
  example_goroutine_def example_latency_def open_doc_def open_store_def closed_store_def
  future_auction_def default_env_def Active_def Finished_def update_instant_def
  commit_instant_def

lemma example_create:
  "CreateAuction example_env Map.empty Background example_auction =
     \<lparr>returned = None, collection = open_store,
      entity = example_auction\<lparr>Timestamp := 1793361600500000000\<rparr>,
      spawned = Some example_goroutine, logged = []\<rparr>"
  by (simp add: example_eval duration_eval)

section \<open>The close attempt, case by case\<close>

lemma close_attempt_Failed:
  "close_attempt aid Failed coll =
     ([StoreUpdate (WithTimeout Background (10 * Second)) aid Active Finished,
       Log (Error ''Error auto-closing auction'')], coll)"
  by (simp add: close_attempt_def FindOneAndUpdate_def ten_seconds)

lemma close_attempt_no_match:
  assumes "coll aid = None \<or> (\<exists>doc. coll aid = Some doc \<and> status doc \<noteq> Active)"
  shows "close_attempt aid Served coll =
     ([StoreUpdate (WithTimeout Background (10 * Second)) aid Active Finished,
       Log (Info ''Auction already closed or not found, skipping auto-close'')], coll)"
  using assms by (auto simp: close_attempt_def FindOneAndUpdate_def ten_seconds)

lemma close_attempt_match:
  assumes "coll aid = Some doc" "status doc = Active"
  shows "close_attempt aid Served coll =
     ([StoreUpdate (WithTimeout Background (10 * Second)) aid Active Finished,
       Log (Info ''Auction auto-closed'')], coll(aid \<mapsto> doc\<lparr>status := Finished\<rparr>))"
  using assms by (auto simp: close_attempt_def FindOneAndUpdate_def ten_seconds)

lemma close_attempt_Lost:
  "close_attempt aid Lost coll =
     ([StoreUpdate (WithTimeout Background (10 * Second)) aid Active Finished,
       Log (Error ''Error auto-closing auction'')],
      (case coll aid of
         None \<Rightarrow> coll
       | Some doc \<Rightarrow> if status doc = Active then coll(aid \<mapsto> doc\<lparr>status := Finished\<rparr>) else coll))"
  by (simp add: close_attempt_def FindOneAndUpdate_def ten_seconds split: option.split)

lemma close_attempt_cases:
  "close_attempt aid reply coll =
     (if reply = Failed
      then ([StoreUpdate (WithTimeout Background (10 * Second)) aid Active Finished,
             Log (Error ''Error auto-closing auction'')], coll)
      else if reply = Lost
      then ([StoreUpdate (WithTimeout Background (10 * Second)) aid Active Finished,
             Log (Error ''Error auto-closing auction'')],
            (case coll aid of
               None \<Rightarrow> coll
             | Some doc \<Rightarrow>
                 if status doc = Active then coll(aid \<mapsto> doc\<lparr>status := Finished\<rparr>) else coll))
      else case coll aid of
             None \<Rightarrow>
               ([StoreUpdate (WithTimeout Background (10 * Second)) aid Active Finished,
                 Log (Info ''Auction already closed or not found, skipping auto-close'')], coll)
           | Some doc \<Rightarrow>
               if status doc = Active
               then ([StoreUpdate (WithTimeout Background (10 * Second)) aid Active Finished,
                      Log (Info ''Auction auto-closed'')], coll(aid \<mapsto> doc\<lparr>status := Finished\<rparr>))
               else ([StoreUpdate (WithTimeout Background (10 * Second)) aid Active Finished,
                      Log (Info ''Auction already closed or not found, skipping auto-close'')],
                     coll))"
proof (cases reply)
  case Served
  show ?thesis
  proof (cases "coll aid")
    case None
    with Served show ?thesis by (simp add: close_attempt_no_match)
  next
    case (Some doc)
    with Served show ?thesis
      by (cases "status doc = Active") (simp_all add: close_attempt_match close_attempt_no_match)
  qed
next
  case Failed
  then show ?thesis by (simp add: close_attempt_Failed)
next
  case Lost
  then show ?thesis by (simp add: close_attempt_Lost)
qed

lemma close_attempt_other:
  "aid' \<noteq> aid \<Longrightarrow> snd (close_attempt aid reply coll) aid' = coll aid'"
  by (simp add: close_attempt_cases split: option.split)

lemma close_goroutine_other:
  "aid' \<noteq> auctionID g \<Longrightarrow> snd (close_goroutine g reply coll) aid' = coll aid'"
  using close_attempt_other [of aid' "auctionID g" reply coll]
  by (simp add: close_goroutine_def split_beta)

lemma close_goroutine_immediate:
  "wait g \<le> 0 \<Longrightarrow> close_goroutine g reply coll = close_attempt (auctionID g) reply coll"
  by (simp add: close_goroutine_def split_beta)

lemma close_goroutine_closed:
  "closed_in coll aid \<Longrightarrow> closed_in (snd (close_goroutine g reply coll)) aid"
  by (auto simp: closed_in_def close_goroutine_def split_beta close_attempt_cases
                 Active_def Finished_def split: option.splits)


section \<open>Schedules of close attempts\<close>



section \<open>Steps of the program\<close>

lemma step_closed:
  "closed_in (store s) aid \<Longrightarrow> closed_in (store (step act s)) aid"
proof (cases act)
  case (Create env ctx a)
  assume "closed_in (store s) aid"
  then show ?thesis unfolding Create
    by (auto simp: closed_in_def CreateAuction_def InsertOne_def toMongo_def Let_def)
next
  case (Fire i reply)
  assume "closed_in (store s) aid"
  then show ?thesis unfolding Fire by (simp add: close_goroutine_closed)
qed

lemma run_closed:
  "closed_in (store s) aid \<Longrightarrow> closed_in (store (run acts s)) aid"
  unfolding run_def
  by (induction acts arbitrary: s) (simp_all add: step_closed)

lemma step_unarmed:
  assumes "store s aid \<noteq> None" and "\<not> armed_for s aid"
  shows "store (step act s) aid = store s aid \<and> \<not> armed_for (step act s) aid"
proof (cases act)
  case (Create env ctx a)
  show ?thesis
  proof (cases "spawned (CreateAuction env (store s) ctx a)")
    case None
    with assms show ?thesis unfolding Create
      by (simp add: CreateAuction_not_spawned armed_for_def Let_def)
  next
    case (Some g)
    note sp = CreateAuction_spawned [OF Some]
    from sp assms(1) have "Id a \<noteq> aid" by auto
    with sp Some assms(2) show ?thesis unfolding Create
      by (auto simp: armed_for_def Let_def)
  qed
next
  case (Fire i reply)
  show ?thesis
  proof (cases "i < length (pending s)")
    case True
    then have "pending s ! i \<in> set (pending s)" by simp
    with assms(2) have ne: "aid \<noteq> auctionID (pending s ! i)"
      by (auto simp: armed_for_def)
    have sub: "set (take i (pending s) @ drop (Suc i) (pending s)) \<subseteq> set (pending s)"
      using set_take_subset [of i "pending s"] set_drop_subset [of "Suc i" "pending s"] by auto
    from True ne sub assms(2) show ?thesis unfolding Fire
      by (auto simp: close_goroutine_other armed_for_def)
  next
    case False
    with assms show ?thesis unfolding Fire by simp
  qed
qed

lemma run_unarmed:
  assumes "store s aid \<noteq> None" and "\<not> armed_for s aid"
  shows "store (run acts s) aid = store s aid \<and> \<not> armed_for (run acts s) aid"
  using assms unfolding run_def
proof (induction acts arbitrary: s)
  case Nil
  then show ?case by simp
next
  case (Cons act acts)
  from step_unarmed [OF Cons.prems] have
    st: "store (step act s) aid = store s aid" and ar: "\<not> armed_for (step act s) aid"
    by simp_all
  from st Cons.prems(1) have "store (step act s) aid \<noteq> None" by simp
  from Cons.IH [OF this ar] st show ?case by simp
qed

section \<open>C1: concurrent close attempts\<close>



section \<open>C2: no close before the deadline, no reopening\<close>

text \<open>
  C2, as stated, fails: the example auction is created at 12:00:00.5 with a duration of
  10 seconds; its closing goroutine makes the update at 12:00:10.0011 and the store
  applies it at 12:00:10.0031, before 12:00:10.5. The deadline is counted from the
  persisted timestamp, which holds whole seconds.
\<close>

theorem closed_before_creation_plus_duration_counterexample:
  "spawned (CreateAuction example_env Map.empty Background example_auction)
     = Some example_goroutine \<and>
   Timestamp (entity (CreateAuction example_env Map.empty Background example_auction))
     = 1793361600500000000 \<and>
   getAuctionDuration (AUCTION_DURATION_SECONDS example_env) = 10 * Second \<and>
   commit_instant (clock_since example_env) example_goroutine example_latency
     = 1793361610003100000 \<and>
   (1793361610003100000 :: int) < 1793361600500000000 + 10 * Second \<and>
   closed_in
     (snd (close_goroutine example_goroutine Served
        (collection (CreateAuction example_env Map.empty Background example_auction))))
     ''a1''"
  by (simp add: example_create close_goroutine_def split_beta close_attempt_cases closed_in_def)
     (simp add: example_eval duration_eval)

text \<open>
  C2, amended: for every auction that \<open>CreateAuction\<close> stores, with \<open>T\<close> its creation
  time (the entity's \<open>Timestamp\<close>, or the clock when it had none), \<open>createdAt\<close> the
  persisted timestamp (\<open>T\<close> cut to whole seconds, so \<open>T - 1s < createdAt \<le> T\<close>) and \<open>D\<close>
  the configured duration: the call stores the entity's own status and itself closes
  nothing, and the closing goroutine makes its update, and the store applies it, at
  some time \<open>\<ge> createdAt + D\<close>, never before, whatever the delays of the scheduler and
  of the store. This holds whenever \<open>now - createdAt\<close> is not below the smallest
  \<open>Duration\<close> and \<open>D - (now - createdAt)\<close> is not above the largest, as is the case for
  every creation timestamp that is not in the future. Once a document is Closed, no
  sequence of steps of the program makes it Open again.
\<close>

theorem closing_not_before_persisted_deadline:
  assumes "spawned (CreateAuction env coll ctx a) = Some g"
      and "T = Timestamp (entity (CreateAuction env coll ctx a))"
      and "createdAt = time_Unix (Unix T) 0"
      and "D = getAuctionDuration (AUCTION_DURATION_SECONDS env)"
      and "minInt64 \<le> clock_since env - createdAt"
      and "D - (clock_since env - createdAt) \<le> maxInt64"
  shows "createdAt + D \<le> update_instant (clock_since env) g lat \<and>
         update_instant (clock_since env) g lat \<le> commit_instant (clock_since env) g lat \<and>
         T - Second < createdAt \<and> createdAt \<le> T \<and>
         map_option status (collection (CreateAuction env coll ctx a) (Id a)) = Some (Status a) \<and>
         (closed_in (store s) aid \<longrightarrow> closed_in (store (run acts s)) aid)"
proof -
  have D: "D \<le> maxInt64" using assms(4) getAuctionDuration_range by simp
  note sp = CreateAuction_spawned [OF assms(1)]
  have "wait g = remaining_of D (Since (clock_since env) createdAt)"
    using sp assms(2,3,4) by simp
  then have w: "wait g = max 0 (D - (clock_since env - createdAt))"
    using scheduled_wait [OF assms(5,6) D] by simp
  have "clock_since env + max 0 (wait g) \<le> update_instant (clock_since env) g lat"
    by (rule update_instant_lower)
  with w have 1: "createdAt + D \<le> update_instant (clock_since env) g lat" by simp
  have 2: "T - Second < createdAt \<and> createdAt \<le> T"
    using sub_second [of T] by (simp add: assms(3) truncation)
  have 3: "map_option status (collection (CreateAuction env coll ctx a) (Id a)) = Some (Status a)"
    using sp by (simp add: toMongo_def)
  from 1 2 3 show ?thesis by (simp add: run_closed commit_instant_lower)
qed

theorem closing_not_before_persisted_deadline_witness:
  "spawned (CreateAuction example_env Map.empty Background example_auction)
     = Some example_goroutine \<and>
   minInt64 \<le> clock_since example_env - time_Unix (Unix 1793361600500000000) 0 \<and>
   getAuctionDuration (AUCTION_DURATION_SECONDS example_env)
     - (clock_since example_env - time_Unix (Unix 1793361600500000000) 0) \<le> maxInt64 \<and>
   time_Unix (Unix 1793361600500000000) 0 + getAuctionDuration (AUCTION_DURATION_SECONDS example_env)
     \<le> update_instant (clock_since example_env) example_goroutine example_latency \<and>
   update_instant (clock_since example_env) example_goroutine example_latency
     \<le> commit_instant (clock_since example_env) example_goroutine example_latency \<and>
   closed_in (store \<lparr>store = closed_store, pending = [example_goroutine]\<rparr>) ''a1'' \<and>
   closed_in
     (store (run [Create example_env Background example_auction, Fire 0 Served]
        \<lparr>store = closed_store, pending = [example_goroutine]\<rparr>)) ''a1''"
proof -
  have h1: "spawned (CreateAuction example_env Map.empty Background example_auction)
              = Some example_goroutine"
    by (simp add: example_create)
  have h2: "(1793361600500000000 :: int)
              = Timestamp (entity (CreateAuction example_env Map.empty Background example_auction))"
    by (simp add: example_create)
  have h5: "minInt64 \<le> clock_since example_env - time_Unix (Unix 1793361600500000000) 0"
    by (simp add: example_eval duration_eval)
  have h6: "getAuctionDuration (AUCTION_DURATION_SECONDS example_env)
              - (clock_since example_env - time_Unix (Unix 1793361600500000000) 0) \<le> maxInt64"
    by (simp add: example_eval duration_eval)
  have h7: "closed_in (store \<lparr>store = closed_store, pending = [example_goroutine]\<rparr>) ''a1''"
    by (simp add: closed_in_def closed_store_def)
  from closing_not_before_persisted_deadline [OF h1 h2 refl refl h5 h6,
      of example_latency "\<lparr>store = closed_store, pending = [example_goroutine]\<rparr>" "''a1''"
         "[Create example_env Background example_auction, Fire 0 Served]"]
    h1 h5 h6 h7
  show ?thesis by simp
qed

section \<open>C3: the conditional update and the no-match case\<close>

text \<open>
  C3: a close attempt makes exactly one call of the store, the conditional update
  with the filter "this identifier and status Open" that sets the status to Closed.
  When a document matches, that document alone is changed. When none matches (the
  document is not Open, or there is none), the attempt logs an informational line, no
  error, and returns with the collection unchanged.
\<close>

theorem close_attempt_conditional_update:
  "store_calls (fst (close_attempt aid reply coll))
     = [(WithTimeout Background (10 * Second), aid, Active, Finished)] \<and>
   (coll aid = Some doc \<and> status doc = Active \<longrightarrow>
      close_attempt aid Served coll =
        ([StoreUpdate (WithTimeout Background (10 * Second)) aid Active Finished,
          Log (Info ''Auction auto-closed'')],
         coll(aid \<mapsto> doc\<lparr>status := Finished\<rparr>))) \<and>
   (coll aid = None \<or> (\<exists>d. coll aid = Some d \<and> status d \<noteq> Active) \<longrightarrow>
      close_attempt aid Served coll =
        ([StoreUpdate (WithTimeout Background (10 * Second)) aid Active Finished,
          Log (Info ''Auction already closed or not found, skipping auto-close'')],
         coll))"
proof (intro conjI impI)
  show "store_calls (fst (close_attempt aid reply coll))
          = [(WithTimeout Background (10 * Second), aid, Active, Finished)]"
    by (simp add: close_attempt_cases split: option.split)
next
  assume "coll aid = Some doc \<and> status doc = Active"
  then show "close_attempt aid Served coll =
        ([StoreUpdate (WithTimeout Background (10 * Second)) aid Active Finished,
          Log (Info ''Auction auto-closed'')],
         coll(aid \<mapsto> doc\<lparr>status := Finished\<rparr>))"
    by (simp add: close_attempt_match)
next
  assume "coll aid = None \<or> (\<exists>d. coll aid = Some d \<and> status d \<noteq> Active)"
  then show "close_attempt aid Served coll =
        ([StoreUpdate (WithTimeout Background (10 * Second)) aid Active Finished,
          Log (Info ''Auction already closed or not found, skipping auto-close'')],
         coll)"
    by (rule close_attempt_no_match)
qed

theorem close_attempt_conditional_update_witness:
  "open_store ''a1'' = Some open_doc \<and> status open_doc = Active \<and>
   snd (close_attempt ''a1'' Served open_store) = closed_store \<and>
   closed_store ''a1'' = Some (open_doc\<lparr>status := Finished\<rparr>) \<and>
   status (open_doc\<lparr>status := Finished\<rparr>) \<noteq> Active \<and>
   close_attempt ''a1'' Served closed_store =
     ([StoreUpdate (WithTimeout Background (10 * Second)) ''a1'' Active Finished,
       Log (Info ''Auction already closed or not found, skipping auto-close'')],
      closed_store) \<and>
   closed_store ''b2'' = None \<and>
   close_attempt ''b2'' Served closed_store =
     ([StoreUpdate (WithTimeout Background (10 * Second)) ''b2'' Active Finished,
       Log (Info ''Auction already closed or not found, skipping auto-close'')],
      closed_store)"
proof -
  have h1: "open_store ''a1'' = Some open_doc \<and> status open_doc = Active"
    by (simp add: open_store_def open_doc_def)
  have h2: "closed_store ''a1'' = Some (open_doc\<lparr>status := Finished\<rparr>) \<and>
            status (open_doc\<lparr>status := Finished\<rparr>) \<noteq> Active"
    by (simp add: closed_store_def Finished_def Active_def)
  have h3: "closed_store ''b2'' = None" by (simp add: closed_store_def)
  have e: "open_store(''a1'' \<mapsto> open_doc\<lparr>status := Finished\<rparr>) = closed_store"
    by (simp add: open_store_def closed_store_def)
  from close_attempt_conditional_update [of "''a1''" Served open_store open_doc]
       close_attempt_conditional_update [of "''a1''" Served closed_store open_doc]
       close_attempt_conditional_update [of "''b2''" Served closed_store open_doc]
       h1 h2 h3 e
  show ?thesis by simp
qed

section \<open>C4: the wait computed by the scheduler\<close>

text \<open>
  C4, as stated, fails: take the auction whose creation timestamp is 2400-01-01,
  created in 2026 with the default duration. \<open>time.Since\<close> saturates at the smallest
  \<open>Duration\<close>, the subtraction \<open>duration - elapsed\<close> wraps around, and the wait handed
  to the goroutine is negative, not \<open>max(0, duration - elapsed)\<close>, which is positive
  and larger than any \<open>Duration\<close>.
\<close>

theorem remaining_beyond_duration_range_counterexample:
  "Since (clock_since default_env) (time_Unix (Unix (Timestamp future_auction)) 0) = minInt64 \<and>
   getAuctionDuration (AUCTION_DURATION_SECONDS default_env) = 600 * Second \<and>
   max 0 (600 * Second - minInt64) = 9223372636854775808 \<and>
   maxInt64 < max 0 (600 * Second - minInt64) \<and>
   spawned (CreateAuction default_env Map.empty Background future_auction)
     = Some \<lparr>auctionID = ''a1'', wait = - 9223371436854775808\<rparr> \<and>
   remaining_of (600 * Second) minInt64 \<noteq> max 0 (600 * Second - minInt64)"
  by (simp add: example_eval duration_eval)

text \<open>
  C4, amended: for every auction for which \<open>CreateAuction\<close> starts the closing
  goroutine, with \<open>duration\<close> the configured duration and \<open>elapsed\<close> the value of
  \<open>time.Since(createdAt)\<close>: whenever \<open>duration - elapsed\<close> fits a \<open>Duration\<close>, the wait is
  \<open>remaining = max(0, duration - elapsed)\<close>; and when the wait is zero, the goroutine
  arms no timer and goes straight to the close attempt, so that nothing but the
  start of the goroutine lies between the scheduling and the update.
\<close>

theorem scheduler_wait:
  assumes "spawned (CreateAuction env coll ctx a) = Some g"
      and "createdAt = time_Unix (Unix (Timestamp (entity (CreateAuction env coll ctx a)))) 0"
      and "duration = getAuctionDuration (AUCTION_DURATION_SECONDS env)"
      and "elapsed = Since (clock_since env) createdAt"
      and "duration - elapsed \<le> maxInt64"
  shows "wait g = max 0 (duration - elapsed) \<and>
         (wait g = 0 \<longrightarrow>
            close_goroutine g reply c = close_attempt (auctionID g) reply c \<and>
            update_instant t0 g lat = t0 + int (start_delay lat))"
proof -
  have "wait g = remaining_of duration elapsed"
    using CreateAuction_spawned [OF assms(1)] assms(2,3,4) by simp
  with assms(5) have "wait g = max 0 (duration - elapsed)"
    by (simp add: remaining_of_max)
  then show ?thesis
    by (simp add: close_goroutine_immediate update_instant_def)
qed

theorem scheduler_wait_witness:
  "spawned (CreateAuction example_env Map.empty Background example_auction)
     = Some example_goroutine \<and>
   getAuctionDuration (AUCTION_DURATION_SECONDS example_env)
     - Since (clock_since example_env) (time_Unix (Unix 1793361600500000000) 0) \<le> maxInt64 \<and>
   wait example_goroutine
     = max 0 (getAuctionDuration (AUCTION_DURATION_SECONDS example_env)
              - Since (clock_since example_env) (time_Unix (Unix 1793361600500000000) 0)) \<and>
   spawned (CreateAuction (example_env\<lparr>clock_since := 1793361700000000000\<rparr>) Map.empty
              Background example_auction)
     = Some \<lparr>auctionID = ''a1'', wait = 0\<rparr> \<and>
   getAuctionDuration (AUCTION_DURATION_SECONDS (example_env\<lparr>clock_since := 1793361700000000000\<rparr>))
     - Since (clock_since (example_env\<lparr>clock_since := 1793361700000000000\<rparr>))
         (time_Unix (Unix 1793361600500000000) 0) \<le> maxInt64 \<and>
   fst (close_goroutine \<lparr>auctionID = ''a1'', wait = 0\<rparr> Served open_store)
     = [StoreUpdate (WithTimeout Background (10 * Second)) ''a1'' Active Finished,
        Log (Info ''Auction auto-closed'')] \<and>
   update_instant 1793361700000000000 \<lparr>auctionID = ''a1'', wait = 0\<rparr> example_latency
     = 1793361700000100000"
proof -
  have h1: "spawned (CreateAuction example_env Map.empty Background example_auction)
              = Some example_goroutine"
    by (simp add: example_create)
  have h2: "time_Unix (Unix 1793361600500000000) 0
              = time_Unix (Unix (Timestamp (entity
                  (CreateAuction example_env Map.empty Background example_auction)))) 0"
    by (simp add: example_create)
  have h5: "getAuctionDuration (AUCTION_DURATION_SECONDS example_env)
              - Since (clock_since example_env) (time_Unix (Unix 1793361600500000000) 0)
              \<le> maxInt64"
    by (simp add: example_eval duration_eval)
  have k1: "spawned (CreateAuction (example_env\<lparr>clock_since := 1793361700000000000\<rparr>) Map.empty
              Background example_auction)
             = Some \<lparr>auctionID = ''a1'', wait = 0\<rparr>"
    by (simp add: example_eval duration_eval)
  have k2: "time_Unix (Unix 1793361600500000000) 0
              = time_Unix (Unix (Timestamp (entity
                  (CreateAuction (example_env\<lparr>clock_since := 1793361700000000000\<rparr>) Map.empty
                     Background example_auction)))) 0"
    by (simp add: example_eval)
  have k5: "getAuctionDuration
              (AUCTION_DURATION_SECONDS (example_env\<lparr>clock_since := 1793361700000000000\<rparr>))
              - Since (clock_since (example_env\<lparr>clock_since := 1793361700000000000\<rparr>))
                  (time_Unix (Unix 1793361600500000000) 0) \<le> maxInt64"
    by (simp add: example_eval duration_eval)
  have m: "close_attempt ''a1'' Served open_store =
             ([StoreUpdate (WithTimeout Background (10 * Second)) ''a1'' Active Finished,
               Log (Info ''Auction auto-closed'')],
              open_store(''a1'' \<mapsto> open_doc\<lparr>status := Finished\<rparr>))"
    by (rule close_attempt_match) (simp_all add: open_store_def open_doc_def)
  have l: "start_delay example_latency = 100000" by (simp add: example_latency_def)
  note t1 = scheduler_wait [OF h1 h2 refl refl h5]
  note t2 = scheduler_wait [OF k1 k2 refl refl k5,
              of Served open_store 1793361700000000000 example_latency]
  show ?thesis
  proof (intro conjI)
    show "wait example_goroutine
            = max 0 (getAuctionDuration (AUCTION_DURATION_SECONDS example_env)
                - Since (clock_since example_env) (time_Unix (Unix 1793361600500000000) 0))"
      using t1 by blast
    show "fst (close_goroutine \<lparr>auctionID = ''a1'', wait = 0\<rparr> Served open_store)
            = [StoreUpdate (WithTimeout Background (10 * Second)) ''a1'' Active Finished,
               Log (Info ''Auction auto-closed'')]"
      using t2 m by simp
    show "update_instant 1793361700000000000 \<lparr>auctionID = ''a1'', wait = 0\<rparr> example_latency
            = 1793361700000100000"
      using t2 l by simp
  qed (use h1 h5 k1 k5 in simp_all)
qed

section \<open>C5: resolution of the duration setting\<close>

text \<open>
  C5, as stated, fails: \<open>99999999999999999999\<close> is a positive integer string, yet it
  does not resolve to that many seconds. \<open>Atoi\<close> reports a range error for it, and the
  guard \<open>err != nil\<close> sends every error to the 600-second default.
\<close>

theorem getAuctionDuration_beyond_int_counterexample:
  "integer_string ''99999999999999999999'' \<and>
   0 < integer_value ''99999999999999999999'' \<and>
   getAuctionDuration ''99999999999999999999'' = 600 * Second \<and>
   getAuctionDuration ''99999999999999999999''
     \<noteq> integer_value ''99999999999999999999'' * Second"
  by (simp add: string_eval duration_eval)

text \<open>
  C5, amended: the empty value, every value that is not an integer string, every
  integer string whose value is zero or negative, and every integer string whose
  value exceeds the largest \<open>int\<close> resolve to the 600-second default; every integer
  string whose value is positive and at most 9223372036 resolves to exactly that many
  seconds. (9223372036 is the largest number of seconds whose nanoseconds fit a
  \<open>Duration\<close>; nothing is said here about the values between it and the largest
  \<open>int\<close>.)
\<close>

theorem getAuctionDuration_resolution:
  "(v = [] \<longrightarrow> getAuctionDuration v = 600 * Second) \<and>
   (\<not> integer_string v \<longrightarrow> getAuctionDuration v = 600 * Second) \<and>
   (integer_string v \<and> integer_value v \<le> 0 \<longrightarrow> getAuctionDuration v = 600 * Second) \<and>
   (integer_string v \<and> maxInt64 < integer_value v \<longrightarrow> getAuctionDuration v = 600 * Second) \<and>
   (integer_string v \<and> 0 < integer_value v \<and> integer_value v \<le> 9223372036 \<longrightarrow>
      getAuctionDuration v = integer_value v * Second)"
proof (intro conjI impI)
  assume "v = []"
  then show "getAuctionDuration v = 600 * Second"
    by (simp add: getAuctionDuration_def default_duration)
next
  assume "\<not> integer_string v"
  then show "getAuctionDuration v = 600 * Second"
    by (simp add: getAuctionDuration_def default_duration Atoi_not_integer_string)
next
  assume "integer_string v \<and> integer_value v \<le> 0"
  then show "getAuctionDuration v = 600 * Second"
    by (simp add: getAuctionDuration_def default_duration Atoi_integer_string)
next
  assume "integer_string v \<and> maxInt64 < integer_value v"
  then show "getAuctionDuration v = 600 * Second"
    by (simp add: getAuctionDuration_def default_duration Atoi_integer_string)
next
  assume a: "integer_string v \<and> 0 < integer_value v \<and> integer_value v \<le> 9223372036"
  then have "v \<noteq> []" by (auto simp: integer_string_def)
  moreover from a have "Atoi v = Some (integer_value v)"
    by (simp add: Atoi_integer_string minInt64_def maxInt64_def)
  moreover from a have "wrap64 (integer_value v * Second) = integer_value v * Second"
    by (intro wrap64_id) (simp_all add: Second_def minInt64_def maxInt64_def)
  ultimately show "getAuctionDuration v = integer_value v * Second"
    using a by (simp add: getAuctionDuration_def)
qed

theorem getAuctionDuration_resolution_witness:
  "getAuctionDuration '''' = 600 * Second \<and>
   \<not> integer_string ''invalid'' \<and> getAuctionDuration ''invalid'' = 600 * Second \<and>
   integer_string ''-5'' \<and> integer_value ''-5'' \<le> 0 \<and>
     getAuctionDuration ''-5'' = 600 * Second \<and>
   integer_string ''0'' \<and> integer_value ''0'' \<le> 0 \<and>
     getAuctionDuration ''0'' = 600 * Second \<and>
   integer_string ''9223372036854775808'' \<and> maxInt64 < integer_value ''9223372036854775808'' \<and>
     getAuctionDuration ''9223372036854775808'' = 600 * Second \<and>
   integer_string ''10'' \<and> 0 < integer_value ''10'' \<and> integer_value ''10'' \<le> 9223372036 \<and>
     getAuctionDuration ''10'' = 10 * Second"
  using getAuctionDuration_resolution [of "''''"]
        getAuctionDuration_resolution [of "''invalid''"]
        getAuctionDuration_resolution [of "''-5''"]
        getAuctionDuration_resolution [of "''0''"]
        getAuctionDuration_resolution [of "''9223372036854775808''"]
        getAuctionDuration_resolution [of "''10''"]
  by (simp add: string_eval maxInt64_def)

text \<open>
  Between 9223372036 and the largest \<open>int\<close> the multiplication by \<open>time.Second\<close>
  wraps around: 9223372037 seconds come out as a negative duration.
\<close>

lemma getAuctionDuration_wraps:
  "getAuctionDuration ''9223372037'' = - 9223372036709551616"
  by (simp add: duration_eval)

section \<open>C6: bids against an auction that is not Open\<close>

text \<open>
  C6: for every bid attempt against a stored auction whose status is not Open, the
  bid-placement operation, once it has read the status, returns \<open>AuctionClosed\<close>, and
  whatever the store replies, no bid is persisted.
\<close>

theorem place_bid_rejects_when_not_open:
  assumes "auctions (bid_AuctionId bid) = Some a" and "status a \<noteq> Active"
  shows "place_bid Reached write_reply auctions bids bid = (Inl AuctionClosed, bids) \<and>
         snd (place_bid read_reply write_reply auctions bids bid) = bids"
  using assms by (simp add: place_bid_def)

theorem place_bid_rejects_when_not_open_witness:
  "closed_store (bid_AuctionId example_bid) = Some (open_doc\<lparr>status := Finished\<rparr>) \<and>
   status (open_doc\<lparr>status := Finished\<rparr>) \<noteq> Active \<and>
   place_bid Reached Reached closed_store [] example_bid = (Inl AuctionClosed, [])"
proof -
  have h1: "closed_store (bid_AuctionId example_bid) = Some (open_doc\<lparr>status := Finished\<rparr>)"
    by (simp add: closed_store_def example_bid_def)
  have h2: "status (open_doc\<lparr>status := Finished\<rparr>) \<noteq> Active"
    by (simp add: Finished_def Active_def)
  from place_bid_rejects_when_not_open
         [of closed_store example_bid "open_doc\<lparr>status := Finished\<rparr>" Reached "[]" Reached,
          OF h1 h2]
       h1 h2
  show ?thesis by simp
qed

section \<open>C7: a failed close attempt\<close>

text \<open>
  C7, as stated, fails: the goroutine takes the same branch for every error of the
  call other than \<open>ErrNoDocuments\<close>, also when the store has applied the update and
  the answer did not come back (the 10 seconds ran out or the connection dropped
  before it arrived, or it could not be decoded). For the Open example auction the
  attempt then ends with the error line, abandoned, and the record is Closed, not
  Open.
\<close>

theorem abandoned_attempt_record_closed_counterexample:
  "open_store ''a1'' = Some open_doc \<and> status open_doc = Active \<and>
   close_goroutine example_goroutine Lost open_store =
     ([NewTimer 9497000000,
       StoreUpdate (WithTimeout Background (10 * Second)) ''a1'' Active Finished,
       Log (Error ''Error auto-closing auction'')],
      closed_store) \<and>
   observed_of (fst (close_goroutine example_goroutine Lost open_store)) = Abandoned \<and>
   closed_in (snd (close_goroutine example_goroutine Lost open_store)) ''a1'' \<and>
   map_option status (snd (close_goroutine example_goroutine Lost open_store) ''a1'')
     \<noteq> Some Active"
  by (simp add: close_goroutine_def close_attempt_Lost observed_of_def closed_in_def
        example_goroutine_def open_store_def closed_store_def open_doc_def
        Active_def Finished_def)

text \<open>
  C7, amended: every closing goroutine makes exactly one call of the store, under its
  own context \<open>WithTimeout(Background(), 10s)\<close>, whatever the call's outcome. When the
  call ends in an error (time-out or any other error of the driver), the goroutine
  makes no second call, logs the error line and nothing else, and returns;
  \<open>CreateAuction\<close> has returned \<open>nil\<close> whenever it started a goroutine, and no document
  other than the auction's own is touched. The auction's record is then as the store
  left it. If the store did not apply the update, the collection is as it was, and a
  record that was Open is closed by a later attempt that the store serves. If the
  store applied the update before the error reached the goroutine, a record that was
  Open is Closed, and a record that was not Open is as it was.
\<close>

theorem close_failure_is_contained:
  "store_calls (fst (close_goroutine g reply coll))
     = [(WithTimeout Background (10 * Second), auctionID g, Active, Finished)] \<and>
   fst (close_goroutine g Failed coll) =
     (if wait g > 0 then [NewTimer (wait g)] else []) @
       [StoreUpdate (WithTimeout Background (10 * Second)) (auctionID g) Active Finished,
        Log (Error ''Error auto-closing auction'')] \<and>
   fst (close_goroutine g Lost coll) = fst (close_goroutine g Failed coll) \<and>
   snd (close_goroutine g Failed coll) = coll \<and>
   (spawned (CreateAuction env c ctx a) = Some g \<longrightarrow>
      returned (CreateAuction env c ctx a) = None) \<and>
   (aid \<noteq> auctionID g \<longrightarrow> snd (close_goroutine g reply coll) aid = coll aid) \<and>
   (coll (auctionID g) = Some doc \<and> status doc = Active \<longrightarrow>
      snd (close_goroutine g Lost coll) = coll(auctionID g \<mapsto> doc\<lparr>status := Finished\<rparr>) \<and>
      observed_of (fst (close_goroutine g Served (snd (close_goroutine g Failed coll))))
        = Transition \<and>
      closed_in (snd (close_goroutine g Served (snd (close_goroutine g Failed coll))))
        (auctionID g)) \<and>
   (coll (auctionID g) = None \<or> (\<exists>d. coll (auctionID g) = Some d \<and> status d \<noteq> Active) \<longrightarrow>
      snd (close_goroutine g Lost coll) = coll)"
proof (intro conjI impI)
  show "store_calls (fst (close_goroutine g reply coll))
          = [(WithTimeout Background (10 * Second), auctionID g, Active, Finished)]"
    by (simp add: close_goroutine_def split_beta close_attempt_cases split: option.split)
next
  show "fst (close_goroutine g Failed coll) =
     (if wait g > 0 then [NewTimer (wait g)] else []) @
       [StoreUpdate (WithTimeout Background (10 * Second)) (auctionID g) Active Finished,
        Log (Error ''Error auto-closing auction'')]"
    by (simp add: close_goroutine_def close_attempt_Failed)
next
  show "fst (close_goroutine g Lost coll) = fst (close_goroutine g Failed coll)"
    by (simp add: close_goroutine_def close_attempt_Failed close_attempt_Lost)
next
  show "snd (close_goroutine g Failed coll) = coll"
    by (simp add: close_goroutine_def close_attempt_Failed)
next
  assume "spawned (CreateAuction env c ctx a) = Some g"
  then show "returned (CreateAuction env c ctx a) = None"
    by (simp add: CreateAuction_spawned)
next
  assume "aid \<noteq> auctionID g"
  then show "snd (close_goroutine g reply coll) aid = coll aid"
    by (rule close_goroutine_other)
next
  assume a: "coll (auctionID g) = Some doc \<and> status doc = Active"
  then show "snd (close_goroutine g Lost coll) = coll(auctionID g \<mapsto> doc\<lparr>status := Finished\<rparr>)"
    by (simp add: close_goroutine_def close_attempt_Lost)
  from a show "observed_of (fst (close_goroutine g Served (snd (close_goroutine g Failed coll))))
               = Transition"
    by (simp add: close_goroutine_def close_attempt_Failed close_attempt_match observed_of_def)
  from a show "closed_in (snd (close_goroutine g Served (snd (close_goroutine g Failed coll))))
                 (auctionID g)"
    by (simp add: close_goroutine_def close_attempt_Failed close_attempt_match closed_in_def)
next
  assume "coll (auctionID g) = None \<or> (\<exists>d. coll (auctionID g) = Some d \<and> status d \<noteq> Active)"
  then show "snd (close_goroutine g Lost coll) = coll"
    by (auto simp: close_goroutine_def close_attempt_Lost)
qed

theorem close_failure_is_contained_witness:
  "spawned (CreateAuction example_env Map.empty Background example_auction)
     = Some example_goroutine \<and>
   returned (CreateAuction example_env Map.empty Background example_auction) = None \<and>
   ''b2'' \<noteq> auctionID example_goroutine \<and>
   snd (close_goroutine example_goroutine Lost open_store) ''b2'' = open_store ''b2'' \<and>
   open_store (auctionID example_goroutine) = Some open_doc \<and> status open_doc = Active \<and>
   snd (close_goroutine example_goroutine Failed open_store) = open_store \<and>
   snd (close_goroutine example_goroutine Lost open_store)
     = open_store(auctionID example_goroutine \<mapsto> open_doc\<lparr>status := Finished\<rparr>) \<and>
   closed_in
     (snd (close_goroutine example_goroutine Served
        (snd (close_goroutine example_goroutine Failed open_store))))
     (auctionID example_goroutine) \<and>
   closed_store (auctionID example_goroutine) = Some (open_doc\<lparr>status := Finished\<rparr>) \<and>
   status (open_doc\<lparr>status := Finished\<rparr>) \<noteq> Active \<and>
   snd (close_goroutine example_goroutine Lost closed_store) = closed_store"
proof -
  have h1: "spawned (CreateAuction example_env Map.empty Background example_auction)
              = Some example_goroutine"
    by (simp add: example_create)
  have h2: "open_store (auctionID example_goroutine) = Some open_doc \<and> status open_doc = Active"
    by (simp add: open_store_def open_doc_def example_goroutine_def)
  have h3: "''b2'' \<noteq> auctionID example_goroutine"
    by (simp add: example_goroutine_def)
  have h4: "closed_store (auctionID example_goroutine) = Some (open_doc\<lparr>status := Finished\<rparr>) \<and>
            status (open_doc\<lparr>status := Finished\<rparr>) \<noteq> Active"
    by (simp add: closed_store_def example_goroutine_def Finished_def Active_def)
  note t = close_failure_is_contained
         [of example_goroutine Lost open_store example_env Map.empty Background
             example_auction "''b2''" open_doc]
  note u = close_failure_is_contained
         [of example_goroutine Lost closed_store example_env Map.empty Background
             example_auction "''b2''" open_doc]
  show ?thesis
  proof (intro conjI)
    show "returned (CreateAuction example_env Map.empty Background example_auction) = None"
      using t h1 by blast
    show "snd (close_goroutine example_goroutine Lost open_store) ''b2'' = open_store ''b2''"
      using t h3 by blast
    show "snd (close_goroutine example_goroutine Failed open_store) = open_store"
      using t by blast
    show "snd (close_goroutine example_goroutine Lost open_store)
            = open_store(auctionID example_goroutine \<mapsto> open_doc\<lparr>status := Finished\<rparr>)"
      using t h2 by blast
    show "closed_in
            (snd (close_goroutine example_goroutine Served
               (snd (close_goroutine example_goroutine Failed open_store))))
            (auctionID example_goroutine)"
      using t h2 by blast
    show "snd (close_goroutine example_goroutine Lost closed_store) = closed_store"
      using u h4 by blast
  qed (use h1 h2 h3 h4 in simp_all)
qed

section \<open>C8: rescheduling\<close>

text \<open>
  C8, as stated, fails: the sources have no rescheduling entry point. The only
  statement that starts a closing goroutine is in \<open>CreateAuction\<close>, after its insert
  has succeeded. For the stored, Open example auction with no goroutine pending (the
  state a restart leaves), submitting the auction again arms nothing and leaves the
  document Open.
\<close>

theorem stored_auction_not_rearmed_counterexample:
  "store (run [Create example_env Background example_auction]
            \<lparr>store = open_store, pending = []\<rparr>) ''a1'' = Some open_doc \<and>
   status open_doc = Active \<and>
   pending (run [Create example_env Background example_auction]
              \<lparr>store = open_store, pending = []\<rparr>) = []"
  by (simp add: run_def example_eval)

text \<open>
  C8, amended: the core exposes no rescheduling interface. A closing goroutine is
  started only by \<open>CreateAuction\<close>, for the auction it has just inserted (one that was
  not in the store), with the wait derived from the creation timestamp this call
  persisted. An auction that is in the store with no goroutine pending for it is never
  armed again by any steps of the program, and its document stays as it is.
\<close>

theorem scheduling_only_at_creation:
  "(spawned (CreateAuction env coll ctx a) = Some g \<longrightarrow>
      coll (Id a) = None \<and> auctionID g = Id a \<and>
      (\<exists>doc. collection (CreateAuction env coll ctx a) (Id a) = Some doc \<and>
         wait g = remaining_of (getAuctionDuration (AUCTION_DURATION_SECONDS env))
                    (Since (clock_since env) (time_Unix (timestamp doc) 0)))) \<and>
   (store s aid \<noteq> None \<and> \<not> armed_for s aid \<longrightarrow>
      store (run acts s) aid = store s aid \<and> \<not> armed_for (run acts s) aid)"
proof (intro conjI impI)
  assume sp: "spawned (CreateAuction env coll ctx a) = Some g"
  note facts = CreateAuction_spawned [OF sp]
  from facts show "coll (Id a) = None" by simp
  from facts show "auctionID g = Id a" by simp
  from facts show "\<exists>doc. collection (CreateAuction env coll ctx a) (Id a) = Some doc \<and>
         wait g = remaining_of (getAuctionDuration (AUCTION_DURATION_SECONDS env))
                    (Since (clock_since env) (time_Unix (timestamp doc) 0))"
    by (simp add: toMongo_def)
next
  assume "store s aid \<noteq> None \<and> \<not> armed_for s aid"
  then show "store (run acts s) aid = store s aid" "\<not> armed_for (run acts s) aid"
    using run_unarmed [of s aid acts] by simp_all
qed

theorem scheduling_only_at_creation_witness:
  "spawned (CreateAuction example_env Map.empty Background example_auction)
     = Some example_goroutine \<and>
   auctionID example_goroutine = Id example_auction \<and>
   store \<lparr>store = open_store, pending = []\<rparr> ''a1'' \<noteq> None \<and>
   \<not> armed_for \<lparr>store = open_store, pending = []\<rparr> ''a1'' \<and>
   \<not> armed_for
       (run [Create example_env Background example_auction,
             Create default_env (WithCancel Background) future_auction]
          \<lparr>store = open_store, pending = []\<rparr>) ''a1'' \<and>
   store
     (run [Create example_env Background example_auction,
           Create default_env (WithCancel Background) future_auction]
        \<lparr>store = open_store, pending = []\<rparr>) ''a1'' = Some open_doc"
proof -
  have h1: "spawned (CreateAuction example_env Map.empty Background example_auction)
              = Some example_goroutine"
    by (simp add: example_create)
  have h2: "store \<lparr>store = open_store, pending = []\<rparr> ''a1'' \<noteq> None \<and>
            \<not> armed_for \<lparr>store = open_store, pending = []\<rparr> ''a1''"
    by (simp add: open_store_def armed_for_def)
  have h3: "open_store ''a1'' = Some open_doc" by (simp add: open_store_def)
  from scheduling_only_at_creation
         [of example_env Map.empty Background example_auction example_goroutine
             "\<lparr>store = open_store, pending = []\<rparr>" "''a1''"
             "[Create example_env Background example_auction,
               Create default_env (WithCancel Background) future_auction]"]
       h1 h2 h3
  show ?thesis by simp
qed

section \<open>C9: the truncated creation timestamp\<close>

text \<open>
  C9: the persisted creation timestamp is the creation time \<open>T\<close> cut to whole Unix
  seconds, and the goroutine's wait is computed from \<open>createdAt\<close> rebuilt from it. The
  wait is \<open>max(0, D - (now - T) - T mod 1s)\<close>, that is, shorter than the remaining time
  counted from \<open>T\<close> by the sub-second part of \<open>T\<close>, which is less than one second. So
  for a creation time with a sub-second part and a positive wait, the update can be
  applied before \<open>T + D\<close> (it is, when the scheduler and the store add no delay). This
  holds whenever \<open>now - createdAt\<close> is not below the smallest \<open>Duration\<close> and
  \<open>D - (now - createdAt)\<close> is not above the largest.
\<close>

theorem truncated_timestamp_shortens_wait:
  assumes "spawned (CreateAuction env coll ctx a) = Some g"
      and "T = Timestamp (entity (CreateAuction env coll ctx a))"
      and "D = getAuctionDuration (AUCTION_DURATION_SECONDS env)"
      and "minInt64 \<le> clock_since env - (T - T mod Second)"
      and "D - (clock_since env - (T - T mod Second)) \<le> maxInt64"
  shows "map_option timestamp (collection (CreateAuction env coll ctx a) (Id a))
           = Some (T div Second) \<and>
         wait g = remaining_of D (Since (clock_since env) (time_Unix (T div Second) 0)) \<and>
         wait g = max 0 (D - (clock_since env - T) - T mod Second) \<and>
         0 \<le> T mod Second \<and> T mod Second < Second \<and>
         (0 < T mod Second \<and> 0 < wait g \<longrightarrow>
            commit_instant (clock_since env) g \<lparr>start_delay = 0, timer_delay = 0, store_delay = 0\<rparr>
              < T + D)"
proof -
  have D: "D \<le> maxInt64" using assms(3) getAuctionDuration_range by simp
  note sp = CreateAuction_spawned [OF assms(1)]
  have w0: "wait g = remaining_of D (Since (clock_since env) (time_Unix (T div Second) 0))"
    using sp assms(2,3) by (simp add: Unix_def)
  then have "wait g = remaining_of D (Since (clock_since env) (T - T mod Second))"
    using truncation [of T] by (simp add: Unix_def)
  then have w: "wait g = max 0 (D - (clock_since env - (T - T mod Second)))"
    using scheduled_wait [OF assms(4,5) D] by simp
  have ts: "map_option timestamp (collection (CreateAuction env coll ctx a) (Id a))
              = Some (T div Second)"
    using sp assms(2) by (simp add: toMongo_def Unix_def)
  have w': "wait g = max 0 (D - (clock_since env - T) - T mod Second)"
    using w by (simp add: algebra_simps)
  have early: "commit_instant (clock_since env) g \<lparr>start_delay = 0, timer_delay = 0, store_delay = 0\<rparr>
              < T + D"
    if "0 < T mod Second \<and> 0 < wait g"
    using that w' by (simp add: commit_instant_def update_instant_def max_def split: if_splits)
  from ts w0 w' early sub_second [of T] show ?thesis by blast
qed

theorem truncated_timestamp_shortens_wait_witness:
  "spawned (CreateAuction example_env Map.empty Background example_auction)
     = Some example_goroutine \<and>
   minInt64 \<le> clock_since example_env - (1793361600500000000 - 1793361600500000000 mod Second) \<and>
   getAuctionDuration (AUCTION_DURATION_SECONDS example_env)
     - (clock_since example_env - (1793361600500000000 - 1793361600500000000 mod Second))
     \<le> maxInt64 \<and>
   map_option timestamp
     (collection (CreateAuction example_env Map.empty Background example_auction) ''a1'')
     = Some 1793361600 \<and>
   (0 :: int) < 1793361600500000000 mod Second \<and> 0 < wait example_goroutine \<and>
   commit_instant (clock_since example_env) example_goroutine
     \<lparr>start_delay = 0, timer_delay = 0, store_delay = 0\<rparr>
     < 1793361600500000000 + getAuctionDuration (AUCTION_DURATION_SECONDS example_env)"
proof -
  have h1: "spawned (CreateAuction example_env Map.empty Background example_auction)
              = Some example_goroutine"
    by (simp add: example_create)
  have h2: "(1793361600500000000 :: int)
              = Timestamp (entity (CreateAuction example_env Map.empty Background example_auction))"
    by (simp add: example_create)
  have h4: "minInt64 \<le> clock_since example_env
              - (1793361600500000000 - 1793361600500000000 mod Second)"
    by (simp add: example_eval duration_eval)
  have h5: "getAuctionDuration (AUCTION_DURATION_SECONDS example_env)
              - (clock_since example_env - (1793361600500000000 - 1793361600500000000 mod Second))
              \<le> maxInt64"
    by (simp add: example_eval duration_eval)
  have h6: "(0 :: int) < 1793361600500000000 mod Second \<and> 0 < wait example_goroutine"
    by (simp add: Second_def example_goroutine_def)
  have d: "(1793361600500000000 :: int) div Second = 1793361600" "Id example_auction = ''a1''"
    by (simp_all add: Second_def example_auction_def)
  from truncated_timestamp_shortens_wait [OF h1 h2 refl h4 h5] h1 h4 h5 h6 d
  show ?thesis by simp
qed

section \<open>C10: a failed insert\<close>

text \<open>
  C10: for every call of \<open>CreateAuction\<close> in which the insert of the document fails
  (which happens when the driver's call fails or a document with this identifier is
  already stored), the call logs and returns the internal error
  \<open>Error trying to insert auction\<close>, the collection is as it was, and no closing
  goroutine is started: no timer is armed and no close attempt is pending from it.
\<close>

theorem CreateAuction_insert_failure:
  assumes "InsertOne (insert_reply env) coll
             (toMongo (entity (CreateAuction env coll ctx a))) = Inl err"
  shows "returned (CreateAuction env coll ctx a)
           = Some (InternalServerError ''Error trying to insert auction'') \<and>
         logged (CreateAuction env coll ctx a) = [Error ''Error trying to insert auction''] \<and>
         spawned (CreateAuction env coll ctx a) = None \<and>
         collection (CreateAuction env coll ctx a) = coll \<and>
         pending (step (Create env ctx a) \<lparr>store = coll, pending = gs\<rparr>) = gs \<and>
         (insert_reply env = Unreached \<or> coll (Id a) \<noteq> None)"
proof -
  have e: "toMongo (entity (CreateAuction env coll ctx a))
             = toMongo (if IsZero (Timestamp a) then a\<lparr>Timestamp := clock_default env\<rparr> else a)"
    by (simp add: CreateAuction_def Let_def split: sum.split)
  from assms have f: "InsertOne (insert_reply env) coll
      (toMongo (if IsZero (Timestamp a) then a\<lparr>Timestamp := clock_default env\<rparr> else a)) = Inl err"
    by (simp only: e)
  then have cause: "insert_reply env = Unreached \<or> coll (Id a) \<noteq> None"
    by (auto simp: InsertOne_def toMongo_def split: if_splits)
  from f have "CreateAuction env coll ctx a =
      \<lparr>returned = Some (InternalServerError ''Error trying to insert auction''),
       collection = coll,
       entity = (if IsZero (Timestamp a) then a\<lparr>Timestamp := clock_default env\<rparr> else a),
       spawned = None, logged = [Error ''Error trying to insert auction'']\<rparr>"
    by (simp add: CreateAuction_def Let_def)
  with cause show ?thesis by simp
qed

theorem CreateAuction_insert_failure_witness:
  "InsertOne (insert_reply (example_env\<lparr>insert_reply := Unreached\<rparr>)) Map.empty
     (toMongo (entity (CreateAuction (example_env\<lparr>insert_reply := Unreached\<rparr>) Map.empty
                         Background example_auction))) = Inl DriverError \<and>
   returned (CreateAuction (example_env\<lparr>insert_reply := Unreached\<rparr>) Map.empty Background
               example_auction)
     = Some (InternalServerError ''Error trying to insert auction'') \<and>
   spawned (CreateAuction (example_env\<lparr>insert_reply := Unreached\<rparr>) Map.empty Background
              example_auction) = None \<and>
   InsertOne (insert_reply example_env) open_store
     (toMongo (entity (CreateAuction example_env open_store Background example_auction)))
     = Inl DuplicateKey \<and>
   spawned (CreateAuction example_env open_store Background example_auction) = None \<and>
   collection (CreateAuction example_env open_store Background example_auction) = open_store"
proof -
  have h1: "InsertOne (insert_reply (example_env\<lparr>insert_reply := Unreached\<rparr>)) Map.empty
     (toMongo (entity (CreateAuction (example_env\<lparr>insert_reply := Unreached\<rparr>) Map.empty
                         Background example_auction))) = Inl DriverError"
    by (simp add: InsertOne_def)
  have h2: "InsertOne (insert_reply example_env) open_store
     (toMongo (entity (CreateAuction example_env open_store Background example_auction)))
     = Inl DuplicateKey"
    by (simp add: example_eval)
  from CreateAuction_insert_failure [OF h1, of "[]"] CreateAuction_insert_failure [OF h2, of "[]"]
       h1 h2
  show ?thesis by simp
qed

end
